theory Spec2Isabelle
  imports Main
begin

section \<open>The record router of \<open>src/router/lambda_function.py\<close>\<close>

text \<open>
  The module is one AWS Lambda handler: for each Kinesis record of a batch it decodes the
  payload, parses two layers of JSON and forwards the inner value either to two HTTP
  collectors (a trace) or to a structured-log sink (a log entry).

  The source raises nothing itself: every fault comes from a subscript, an attribute
  access, a membership test or a library call.  Each of them is a branch of the model.
  The library calls (\<open>json.loads\<close>, \<open>base64.b64decode\<close>, \<open>requests.post\<close>,
  \<open>Logger.log_struct\<close>) are parameters of the model, collected in the record \<open>env\<close>:
  the theorems hold whatever these calls answer.  Strings are byte strings, as in the
  Python 2 runtime that the module's \<open>from __future__ import print_function\<close> addresses
  (so \<open>'...' + resp.content\<close> is a concatenation of two strings).  The leading underscore
  of \<open>_process_record\<close>, \<open>_process_trace\<close> and \<open>_process_log\<close> is dropped, an Isabelle
  name starting with a letter.
\<close>

subsection \<open>Python values\<close>

text \<open>
  A float is kept as mantissa and binary exponent, or as one of the three special values
  that \<open>json.loads\<close> accepts (\<open>Infinity\<close>, \<open>-Infinity\<close>, \<open>NaN\<close>).
\<close>

datatype pyfloat = PyFloat int int | PyInf | PyNegInf | PyNaN

text \<open>
  The values \<open>json.loads\<close> returns, which are also the values of a Lambda event:
  \<open>None\<close>, \<open>bool\<close>, \<open>int\<close>, \<open>float\<close>, string, \<open>list\<close> and \<open>dict\<close> with string keys.
  A \<open>dict\<close> is an association list read with \<open>map_of\<close>.
\<close>

datatype json =
    JNull
  | JBool bool
  | JInt int
  | JFloat pyfloat
  | JStr string
  | JArr "json list"
  | JObj "(string \<times> json) list"

text \<open>
  The faults that leave the handler.  \<open>KeyError k\<close>: \<open>d[k]\<close> on a \<open>dict\<close> without
  \<open>k\<close>.  \<open>TypeError_subscript\<close>: \<open>v[k]\<close> with a string \<open>k\<close> on a value that is not a
  \<open>dict\<close>.  \<open>TypeError_membership\<close>: \<open>k in v\<close> on a value that is not a container.
  \<open>AttributeError_get\<close>: \<open>v.get\<close> on a value that is not a \<open>dict\<close>.
  \<open>Base64Error\<close>: \<open>base64.b64decode\<close> raised.  \<open>HttpError\<close>: \<open>requests.post\<close> raised
  instead of returning a response.  \<open>SinkError\<close>: \<open>log_struct\<close> raised.
\<close>

datatype fault =
    KeyError string
  | TypeError_subscript
  | TypeError_membership
  | AttributeError_get
  | Base64Error
  | HttpError
  | SinkError

text \<open>\<open>v[k]\<close> for a string \<open>k\<close>.\<close>

fun py_getitem :: "json \<Rightarrow> string \<Rightarrow> fault + json" where
  "py_getitem (JObj kvs) k = (case map_of kvs k of None \<Rightarrow> Inl (KeyError k) | Some v \<Rightarrow> Inr v)"
| "py_getitem _ k = Inl TypeError_subscript"

text \<open>\<open>v.get(k)\<close>: \<open>None\<close> for a missing key; only a \<open>dict\<close> has the method.\<close>

fun py_get :: "json \<Rightarrow> string \<Rightarrow> fault + json" where
  "py_get (JObj kvs) k = (case map_of kvs k of None \<Rightarrow> Inr JNull | Some v \<Rightarrow> Inr v)"
| "py_get _ k = Inl AttributeError_get"

text \<open>Truth value of a Python value, as \<open>not log\<close> tests it.\<close>

fun truthy :: "json \<Rightarrow> bool" where
  "truthy JNull = False"
| "truthy (JBool b) = b"
| "truthy (JInt n) = (n \<noteq> 0)"
| "truthy (JFloat (PyFloat m e)) = (m \<noteq> 0)"
| "truthy (JFloat _) = True"
| "truthy (JStr s) = (s \<noteq> [])"
| "truthy (JArr xs) = (xs \<noteq> [])"
| "truthy (JObj kvs) = (kvs \<noteq> [])"

text \<open>\<open>needle in hay\<close> on two strings: \<open>needle\<close> occurs in \<open>hay\<close> as a substring.\<close>

fun str_contains :: "string \<Rightarrow> string \<Rightarrow> bool" where
  "str_contains needle [] = (needle = [])"
| "str_contains needle (c # cs) =
     (take (length needle) (c # cs) = needle \<or> str_contains needle cs)"

text \<open>
  \<open>k in v\<close> for a string \<open>k\<close>: a key of a \<open>dict\<close>, a substring of a string, an
  element of a \<open>list\<close>; any other value is not iterable.
\<close>

fun py_contains :: "string \<Rightarrow> json \<Rightarrow> fault + bool" where
  "py_contains k (JObj kvs) = Inr (k \<in> fst ` set kvs)"
| "py_contains k (JStr s) = Inr (str_contains k s)"
| "py_contains k (JArr xs) = Inr (JStr k \<in> set xs)"
| "py_contains k _ = Inl TypeError_membership"

text \<open>\<open>str(n)\<close> for a length: the decimal digits.\<close>

fun digit_char :: "nat \<Rightarrow> char" where
  "digit_char d = char_of (48 + d)"

fun str_nat :: "nat \<Rightarrow> string" where
  "str_nat n = (if n < 10 then [digit_char n] else str_nat (n div 10) @ [digit_char (n mod 10)])"

declare str_nat.simps [simp del]

subsection \<open>Configuration, context, effects\<close>

text \<open>
  The three environment variables read at import.  \<open>REGION\<close> is line 14.
\<close>

record config =
  JAEGER_COLLECTOR_URL :: string
  STACKDRIVER_COLLECTOR_URL :: string
  AWS_REGION :: string

definition REGION :: "config \<Rightarrow> string" where
  "REGION cfg = ''aws:'' @ AWS_REGION cfg"

record lambda_context =
  aws_request_id :: string

text \<open>\<open>Resource(type=..., labels={...})\<close>; the labels in the order of the literal.\<close>

record resource =
  rtype :: string
  labels :: "(string \<times> string) list"

text \<open>What \<open>requests.post\<close> returns, as far as the module reads it.\<close>

record response =
  ok :: bool
  content :: string

text \<open>
  The trace of a run.  \<open>Post url headers data\<close>: a call of \<open>requests.post\<close>.
  \<open>LogStruct logger payload resource\<close>: a call of \<open>log_struct\<close> on the logger of that
  name.  \<open>Print s\<close>: a string written to standard output.  \<open>PrintValue v\<close>: \<open>print(v)\<close> of
  a Python value.  A call is recorded when it is made, whether it then returns or raises.
  \<open>ProcessRecord payload\<close> is not an effect: it marks the call of \<open>_process_record\<close> at
  line 24, so that the order of the per-record calls can be read off the trace.
\<close>

datatype event =
    ProcessRecord string
  | Post string "(string \<times> string) list" string
  | LogStruct string json resource
  | Print string
  | PrintValue json

text \<open>
  The library.  \<open>json_loads s\<close>: \<open>None\<close> when \<open>json.loads\<close> raises on the string \<open>s\<close>.
  \<open>b64decode_str s\<close>: \<open>None\<close> when \<open>base64.b64decode\<close> raises on the string \<open>s\<close>.
  \<open>requests_post\<close> and \<open>log_struct\<close> answer from the trace so far and the arguments of
  the call: \<open>requests_post\<close> gives \<open>None\<close> when the call raises, \<open>log_struct\<close> gives
  \<open>False\<close> when it raises.
\<close>

record env =
  json_loads :: "string \<Rightarrow> json option"
  b64decode_str :: "string \<Rightarrow> string option"
  requests_post :: "event list \<Rightarrow> string \<Rightarrow> (string \<times> string) list \<Rightarrow> string \<Rightarrow> response option"
  log_struct :: "event list \<Rightarrow> json \<Rightarrow> resource \<Rightarrow> bool"

text \<open>\<open>base64.b64decode(v)\<close>: a value that is not a string raises as well.\<close>

fun b64decode :: "env \<Rightarrow> json \<Rightarrow> fault + string" where
  "b64decode E (JStr s) = (case b64decode_str E s of None \<Rightarrow> Inl Base64Error | Some d \<Rightarrow> Inr d)"
| "b64decode E _ = Inl Base64Error"

text \<open>
  \<open>json.loads(v)\<close> inside \<open>try: ... except: return\<close> (lines 39 to 42): \<open>None\<close> is the
  \<open>except\<close> branch, taken when \<open>v\<close> is not a string or is not JSON.
\<close>

fun loads_value :: "env \<Rightarrow> json \<Rightarrow> json option" where
  "loads_value E (JStr s) = json_loads E s"
| "loads_value E _ = None"

subsection \<open>The module's functions\<close>

text \<open>
  Each function takes the trace and returns its result with the trace extended:
  \<open>Inl\<close> a fault that propagates, \<open>Inr\<close> a normal return.
\<close>

definition process_log :: "env \<Rightarrow> config \<Rightarrow> json \<Rightarrow> lambda_context \<Rightarrow> event list \<Rightarrow> (fault + unit) \<times> event list" where
  "process_log E cfg log ctx tr =
     (let res = \<lparr>rtype = ''generic_task'',
                 labels = [(''location'', REGION cfg),
                           (''namespace'', ''default''),
                           (''job'', ''router''),
                           (''task_id'', aws_request_id ctx)]\<rparr>;
          tr1 = tr @ [LogStruct ''aws'' log res]
      in if log_struct E tr log res
         then (Inr (), tr1 @ [PrintValue log])
         else (Inl SinkError, tr1))"

definition process_trace :: "env \<Rightarrow> config \<Rightarrow> json \<Rightarrow> lambda_context \<Rightarrow> event list \<Rightarrow> (fault + unit) \<times> event list" where
  "process_trace E cfg trace ctx tr =
     (let headers = [(''Content-Type'', ''application/x-thrift'')]
      in case b64decode E trace of
           Inl f \<Rightarrow> (Inl f, tr)
         | Inr data \<Rightarrow>
             (let tr1 = tr @ [Post (JAEGER_COLLECTOR_URL cfg) headers data]
              in case requests_post E tr (JAEGER_COLLECTOR_URL cfg) headers data of
                   None \<Rightarrow> (Inl HttpError, tr1)
                 | Some resp \<Rightarrow>
                     (let tr2 = (if ok resp then tr1
                                 else tr1 @ [Print (''Failed to POST span to Jaeger: '' @ content resp)]);
                          tr3 = tr2 @ [Post (STACKDRIVER_COLLECTOR_URL cfg) headers data]
                      in case requests_post E tr2 (STACKDRIVER_COLLECTOR_URL cfg) headers data of
                           None \<Rightarrow> (Inl HttpError, tr3)
                         | Some resp2 \<Rightarrow>
                             (Inr (),
                              if ok resp2 then tr3
                              else tr3 @ [Print (''Failed to POST span to Stackdriver: '' @ content resp2)]))))"

definition process_record :: "env \<Rightarrow> config \<Rightarrow> string \<Rightarrow> lambda_context \<Rightarrow> event list \<Rightarrow> (fault + unit) \<times> event list" where
  "process_record E cfg payload ctx tr =
     (case json_loads E payload of
        None \<Rightarrow> (Inr (), tr)
      | Some payload' \<Rightarrow>
          (case py_get payload' ''log'' of
             Inl f \<Rightarrow> (Inl f, tr)
           | Inr log \<Rightarrow>
               if \<not> truthy log then (Inr (), tr)
               else (case loads_value E log of
                       None \<Rightarrow> (Inr (), tr)
                     | Some log' \<Rightarrow>
                         (case py_contains ''trace'' log' of
                            Inl f \<Rightarrow> (Inl f, tr)
                          | Inr True \<Rightarrow>
                              (case py_getitem log' ''trace'' of
                                 Inl f \<Rightarrow> (Inl f, tr)
                               | Inr t \<Rightarrow> process_trace E cfg t ctx tr)
                          | Inr False \<Rightarrow> process_log E cfg log' ctx tr))))"

text \<open>
  Line 23, \<open>base64.b64decode(record['kinesis']['data'])\<close>: the payload of a record.
  It does not take the trace: nothing in it writes.
\<close>

definition record_payload :: "env \<Rightarrow> json \<Rightarrow> fault + string" where
  "record_payload E r =
     (case py_getitem r ''kinesis'' of
        Inl f \<Rightarrow> Inl f
      | Inr k \<Rightarrow> (case py_getitem k ''data'' of
                    Inl f \<Rightarrow> Inl f
                  | Inr d \<Rightarrow> b64decode E d))"

text \<open>The \<open>for\<close> loop of lines 21 to 24.\<close>

fun handler_loop :: "env \<Rightarrow> config \<Rightarrow> json list \<Rightarrow> lambda_context \<Rightarrow> event list \<Rightarrow> (fault + unit) \<times> event list" where
  "handler_loop E cfg [] ctx tr = (Inr (), tr)"
| "handler_loop E cfg (r # rs) ctx tr =
     (case record_payload E r of
        Inl f \<Rightarrow> (Inl f, tr)
      | Inr payload \<Rightarrow>
          (case process_record E cfg payload ctx (tr @ [ProcessRecord payload]) of
             (Inl f, tr') \<Rightarrow> (Inl f, tr')
           | (Inr u, tr') \<Rightarrow> handler_loop E cfg rs ctx tr'))"

text \<open>
  The event, as far as the handler reads it: \<open>event['Records']\<close>, a sequence of records.
\<close>

record lambda_event =
  Records :: "json list"

definition lambda_handler :: "env \<Rightarrow> config \<Rightarrow> lambda_event \<Rightarrow> lambda_context \<Rightarrow> event list \<Rightarrow> (fault + string) \<times> event list" where
  "lambda_handler E cfg ev ctx tr =
     (case handler_loop E cfg (Records ev) ctx tr of
        (Inl f, tr') \<Rightarrow> (Inl f, tr')
      | (Inr u, tr') \<Rightarrow>
          (Inr (''Successfully processed '' @ str_nat (length (Records ev)) @ '' records.''), tr'))"

subsection \<open>Reading a run\<close>

text \<open>
  The inner payload of a record: the value that reaches the classification at line 44.
  It is \<open>None\<close> for a record that lines 30 to 42 skip, and for an outer value that is
  not a \<open>dict\<close>.  Lemma \<open>process_record_inner\<close> ties it to \<open>process_record\<close>.
\<close>

definition inner_payload :: "env \<Rightarrow> string \<Rightarrow> json option" where
  "inner_payload E payload =
     (case json_loads E payload of
        Some (JObj kvs) \<Rightarrow>
          (case map_of kvs ''log'' of
             None \<Rightarrow> None
           | Some l \<Rightarrow> if truthy l then loads_value E l else None)
      | _ \<Rightarrow> None)"

text \<open>The payloads of the per-record calls in a trace, in call order.\<close>

fun calls :: "event list \<Rightarrow> string list" where
  "calls [] = []"
| "calls (ProcessRecord p # es) = p # calls es"
| "calls (e # es) = calls es"

fun is_post :: "event \<Rightarrow> bool" where
  "is_post (Post url hs d) = True"
| "is_post e = False"

fun is_log_write :: "event \<Rightarrow> bool" where
  "is_log_write (LogStruct n v res) = True"
| "is_log_write e = False"

fun is_stdout :: "event \<Rightarrow> bool" where
  "is_stdout (Print s) = True"
| "is_stdout (PrintValue v) = True"
| "is_stdout e = False"

text \<open>The header dictionary of line 53 and the resource of lines 68 to 76.\<close>

definition thrift_headers :: "(string \<times> string) list" where
  "thrift_headers = [(''Content-Type'', ''application/x-thrift'')]"

definition task_resource :: "config \<Rightarrow> lambda_context \<Rightarrow> resource" where
  "task_resource cfg ctx =
     \<lparr>rtype = ''generic_task'',
      labels = [(''location'', ''aws:'' @ AWS_REGION cfg),
                (''namespace'', ''default''),
                (''job'', ''router''),
                (''task_id'', aws_request_id ctx)]\<rparr>"

text \<open>What lines 57 and 58 (61 and 62) print for a response: nothing when it is ok.\<close>

definition failure_report :: "string \<Rightarrow> response \<Rightarrow> event list" where
  "failure_report name resp =
     (if ok resp then [] else [Print (''Failed to POST span to '' @ name @ '': '' @ content resp)])"

text \<open>
  A record without the nested fields: a \<open>dict\<close> with no \<open>kinesis\<close> key, or one whose
  \<open>kinesis\<close> value is a \<open>dict\<close> with no \<open>data\<close> key.
\<close>

fun lacks_data :: "json \<Rightarrow> bool" where
  "lacks_data (JObj kvs) =
     (case map_of kvs ''kinesis'' of
        None \<Rightarrow> True
      | Some (JObj kvs2) \<Rightarrow> map_of kvs2 ''data'' = None
      | Some _ \<Rightarrow> False)"
| "lacks_data _ = False"

text \<open>
  The spec's reading of the loop, for comparison with \<open>handler_loop\<close>: the payloads are
  processed one at a time, in list order, each call starting from the trace the previous
  call left, and a fault ends the run.
\<close>

fun sequential_run :: "env \<Rightarrow> config \<Rightarrow> string list \<Rightarrow> lambda_context \<Rightarrow> event list \<Rightarrow> (fault + unit) \<times> event list" where
  "sequential_run E cfg [] ctx tr = (Inr (), tr)"
| "sequential_run E cfg (p # ps) ctx tr =
     (case process_record E cfg p ctx (tr @ [ProcessRecord p]) of
        (Inl f, tr') \<Rightarrow> (Inl f, tr')
      | (Inr u, tr') \<Rightarrow> sequential_run E cfg ps ctx tr')"


subsection \<open>Base64\<close>

text \<open>
  Modelled from the spec: the repository does not contain the decoder that line 23 calls,
  \<open>base64.b64decode\<close> of the standard library, and the spec says only that a record is a
  base64-encoded byte string.  What follows is base64 as its standard (RFC 4648) defines
  it: an alphabet of 64 characters, four characters for every three bytes, and \<open>=\<close> as
  padding in the last group of four.
\<close>

definition b64_alphabet :: string where
  "b64_alphabet = ''ABCDEFGHIJKLMNOPQRSTUVWXYZabcdefghijklmnopqrstuvwxyz0123456789+/''"

text \<open>Modelled from the spec: the position of a character in a string.\<close>

fun index_of :: "char \<Rightarrow> string \<Rightarrow> nat option" where
  "index_of c [] = None"
| "index_of c (x # xs) = (if c = x then Some 0 else map_option Suc (index_of c xs))"

text \<open>Modelled from the spec: the six bits a character of the alphabet stands for.\<close>

definition b64_value :: "char \<Rightarrow> nat option" where
  "b64_value c = index_of c b64_alphabet"

text \<open>Modelled from the spec: four characters of the alphabet give three bytes.\<close>

definition b64_quad :: "char \<Rightarrow> char \<Rightarrow> char \<Rightarrow> char \<Rightarrow> string option" where
  "b64_quad a b c d =
     (case (b64_value a, b64_value b, b64_value c, b64_value d) of
        (Some p, Some q, Some r, Some t) \<Rightarrow>
          Some [char_of (p * 4 + q div 16), char_of ((q mod 16) * 16 + r div 4), char_of ((r mod 4) * 64 + t)]
      | _ \<Rightarrow> None)"

text \<open>
  Modelled from the spec: the last group of four.  Two characters and \<open>==\<close> give one byte, three characters and
  \<open>=\<close> give two bytes, four characters give three.
\<close>

definition b64_last :: "char \<Rightarrow> char \<Rightarrow> char \<Rightarrow> char \<Rightarrow> string option" where
  "b64_last a b c d =
     (if d = CHR ''='' then
        (if c = CHR ''='' then
           (case (b64_value a, b64_value b) of
              (Some p, Some q) \<Rightarrow> Some [char_of (p * 4 + q div 16)]
            | _ \<Rightarrow> None)
         else
           (case (b64_value a, b64_value b, b64_value c) of
              (Some p, Some q, Some r) \<Rightarrow>
                Some [char_of (p * 4 + q div 16), char_of ((q mod 16) * 16 + r div 4)]
            | _ \<Rightarrow> None))
      else b64_quad a b c d)"

text \<open>
  Modelled from the spec: the decoder, standing for \<open>base64.b64decode\<close>.  It gives
  \<open>None\<close> when it raises, which it does on every string that is not made of such groups.
\<close>

fun b64decode_std :: "string \<Rightarrow> string option" where
  "b64decode_std [] = Some []"
| "b64decode_std (a # b # c # d # rest) =
     (if rest = [] then b64_last a b c d
      else (case b64_quad a b c d of
              None \<Rightarrow> None
            | Some bs \<Rightarrow> map_option ((@) bs) (b64decode_std rest)))"
| "b64decode_std _ = None"

text \<open>
  Modelled from the spec: a valid base64 encoding is made of groups of four characters
  of the alphabet, the last group possibly padded.
\<close>

definition is_b64 :: "char \<Rightarrow> bool" where
  "is_b64 c = (c \<in> set b64_alphabet)"

fun valid_base64 :: "string \<Rightarrow> bool" where
  "valid_base64 [] = True"
| "valid_base64 (a # b # c # d # rest) =
     (if rest = []
      then is_b64 a \<and> is_b64 b
           \<and> ((c = CHR ''='' \<and> d = CHR ''='') \<or> (is_b64 c \<and> (d = CHR ''='' \<or> is_b64 d)))
      else is_b64 a \<and> is_b64 b \<and> is_b64 c \<and> is_b64 d \<and> valid_base64 rest)"
| "valid_base64 _ = False"

text \<open>Modelled from the spec: the encoder, of which the decoder is the inverse.\<close>

definition sextet :: "nat \<Rightarrow> char" where
  "sextet n = b64_alphabet ! n"

fun b64encode :: "string \<Rightarrow> string" where
  "b64encode [] = []"
| "b64encode [a] =
     (let x = of_char a :: nat
      in [sextet (x div 4), sextet ((x mod 4) * 16), CHR ''='', CHR ''=''])"
| "b64encode [a, b] =
     (let x = of_char a :: nat; y = of_char b :: nat
      in [sextet (x div 4), sextet ((x mod 4) * 16 + y div 16), sextet ((y mod 16) * 4), CHR ''=''])"
| "b64encode (a # b # c # rest) =
     (let x = of_char a :: nat; y = of_char b :: nat; z = of_char c :: nat
      in [sextet (x div 4), sextet ((x mod 4) * 16 + y div 16),
          sextet ((y mod 16) * 4 + z div 64), sextet (z mod 64)] @ b64encode rest)"

subsection \<open>A sample library and sample records\<close>

text \<open>
  Concrete inputs for the examples below.  The sample library answers as Python does on
  the strings that occur in them, and raises on every other string; the data of a
  sample record is the base64 text of its payload.
\<close>

definition bq :: string where
  "bq = [CHR 0x5C, CHR 0x22]"

definition payload_trace :: string where
  \<open>payload_trace = ''{"log": "{'' @ bq @ ''trace'' @ bq @ '':'' @ bq @ ''AAA='' @ bq @ ''}"}''\<close>

definition payload_log :: string where
  \<open>payload_log = ''{"log": "{'' @ bq @ ''message'' @ bq @ '':'' @ bq @ ''hello'' @ bq @ ''}"}''\<close>

definition payload_badtrace :: string where
  \<open>payload_badtrace = ''{"log": "{'' @ bq @ ''trace'' @ bq @ '': 5}"}''\<close>

definition payload_five :: string where
  \<open>payload_five = ''{"log": "5"}''\<close>

definition payload_str :: string where
  \<open>payload_str = ''{"log": "'' @ bq @ ''hello'' @ bq @ ''"}''\<close>

definition payload_empty_log :: string where
  \<open>payload_empty_log = ''{"log": ""}''\<close>

definition payload_bad_inner :: string where
  \<open>payload_bad_inner = ''{"log": "oops"}''\<close>

definition sample_json_loads :: "string \<Rightarrow> json option" where
  \<open>sample_json_loads = map_of
     [(payload_trace, JObj [(''log'', JStr ''{"trace":"AAA="}'')]),
      (''{"trace":"AAA="}'', JObj [(''trace'', JStr ''AAA='')]),
      (payload_log, JObj [(''log'', JStr ''{"message":"hello"}'')]),
      (''{"message":"hello"}'', JObj [(''message'', JStr ''hello'')]),
      (payload_badtrace, JObj [(''log'', JStr ''{"trace": 5}'')]),
      (''{"trace": 5}'', JObj [(''trace'', JInt 5)]),
      (payload_five, JObj [(''log'', JStr ''5'')]),
      (''5'', JInt 5),
      (payload_str, JObj [(''log'', JStr ''"hello"'')]),
      (''"hello"'', JStr ''hello''),
      (''{}'', JObj []),
      (''[]'', JArr []),
      (payload_empty_log, JObj [(''log'', JStr [])]),
      (payload_bad_inner, JObj [(''log'', JStr ''oops'')])]\<close>

definition sample_b64decode :: "string \<Rightarrow> string option" where
  \<open>sample_b64decode = map_of
     [(''eyJsb2ciOiAie1widHJhY2VcIjpcIkFBQT1cIn0ifQ=='', payload_trace),
      (''eyJsb2ciOiAie1wibWVzc2FnZVwiOlwiaGVsbG9cIn0ifQ=='', payload_log),
      (''eyJsb2ciOiAie1widHJhY2VcIjogNX0ifQ=='', payload_badtrace),
      (''eyJsb2ciOiAiNSJ9'', payload_five),
      (''eyJsb2ciOiAiXCJoZWxsb1wiIn0='', payload_str),
      (''bm90IGpzb24='', ''not json''),
      (''e30='', ''{}''),
      (''NQ=='', ''5''),
      (''W10='', ''[]''),
      (''eyJsb2ciOiAiIn0='', payload_empty_log),
      (''eyJsb2ciOiAib29wcyJ9'', payload_bad_inner),
      (''AAA='', [CHR 0x00, CHR 0x00])]\<close>

text \<open>Three HTTP behaviours and two sink behaviours.\<close>

definition post_ok :: "event list \<Rightarrow> string \<Rightarrow> (string \<times> string) list \<Rightarrow> string \<Rightarrow> response option" where
  "post_ok tr url hs d = Some \<lparr>ok = True, content = []\<rparr>"

definition post_jaeger_503 :: "event list \<Rightarrow> string \<Rightarrow> (string \<times> string) list \<Rightarrow> string \<Rightarrow> response option" where
  "post_jaeger_503 tr url hs d =
     (if url = ''http://jaeger/api/traces''
      then Some \<lparr>ok = False, content = ''unavailable''\<rparr>
      else Some \<lparr>ok = True, content = []\<rparr>)"

definition post_raises :: "event list \<Rightarrow> string \<Rightarrow> (string \<times> string) list \<Rightarrow> string \<Rightarrow> response option" where
  "post_raises tr url hs d = None"

definition sink_ok :: "event list \<Rightarrow> json \<Rightarrow> resource \<Rightarrow> bool" where
  "sink_ok tr v res = True"

definition sink_raises :: "event list \<Rightarrow> json \<Rightarrow> resource \<Rightarrow> bool" where
  "sink_raises tr v res = False"

definition sample_env :: env where
  "sample_env = \<lparr>json_loads = sample_json_loads, b64decode_str = sample_b64decode,
                  requests_post = post_ok, log_struct = sink_ok\<rparr>"

definition env_jaeger_503 :: env where
  "env_jaeger_503 = \<lparr>json_loads = sample_json_loads, b64decode_str = sample_b64decode,
                      requests_post = post_jaeger_503, log_struct = sink_ok\<rparr>"

definition env_post_raises :: env where
  "env_post_raises = \<lparr>json_loads = sample_json_loads, b64decode_str = sample_b64decode,
                       requests_post = post_raises, log_struct = sink_ok\<rparr>"

definition env_sink_raises :: env where
  "env_sink_raises = \<lparr>json_loads = sample_json_loads, b64decode_str = sample_b64decode,
                       requests_post = post_ok, log_struct = sink_raises\<rparr>"

text \<open>The sample library with the base64 decoder above in place of the table.\<close>

definition env_std_decoder :: env where
  "env_std_decoder = \<lparr>json_loads = sample_json_loads, b64decode_str = b64decode_std,
                       requests_post = post_ok, log_struct = sink_ok\<rparr>"

definition sample_cfg :: config where
  "sample_cfg = \<lparr>JAEGER_COLLECTOR_URL = ''http://jaeger/api/traces'',
                  STACKDRIVER_COLLECTOR_URL = ''http://stackdriver/api/traces'',
                  AWS_REGION = ''us-east-1''\<rparr>"

definition sample_ctx :: lambda_context where
  "sample_ctx = \<lparr>aws_request_id = ''req-1''\<rparr>"

definition kinesis_record :: "string \<Rightarrow> json" where
  "kinesis_record d = JObj [(''kinesis'', JObj [(''data'', JStr d)])]"

definition rec_trace :: json where
  "rec_trace = kinesis_record ''eyJsb2ciOiAie1widHJhY2VcIjpcIkFBQT1cIn0ifQ==''"

definition rec_log :: json where
  "rec_log = kinesis_record ''eyJsb2ciOiAie1wibWVzc2FnZVwiOlwiaGVsbG9cIn0ifQ==''"

definition rec_five :: json where
  "rec_five = kinesis_record ''eyJsb2ciOiAiNSJ9''"

definition rec_str :: json where
  "rec_str = kinesis_record ''eyJsb2ciOiAiXCJoZWxsb1wiIn0=''"

definition rec_not_json :: json where
  "rec_not_json = kinesis_record ''bm90IGpzb24=''"

definition rec_no_log :: json where
  "rec_no_log = kinesis_record ''e30=''"

definition rec_empty_log :: json where
  "rec_empty_log = kinesis_record ''eyJsb2ciOiAiIn0=''"

definition rec_bad_inner :: json where
  "rec_bad_inner = kinesis_record ''eyJsb2ciOiAib29wcyJ9''"

definition rec_badtrace :: json where
  "rec_badtrace = kinesis_record ''eyJsb2ciOiAie1widHJhY2VcIjogNX0ifQ==''"

text \<open>Records whose payload is JSON but not an object: \<open>5\<close> and \<open>[]\<close>.\<close>

definition rec_outer_five :: json where
  "rec_outer_five = kinesis_record ''NQ==''"

definition rec_outer_list :: json where
  "rec_outer_list = kinesis_record ''W10=''"

text \<open>A record with no \<open>kinesis\<close> field.\<close>

definition rec_no_kinesis :: json where
  "rec_no_kinesis = JObj [(''eventSource'', JStr ''aws:kinesis'')]"

subsection \<open>Lemmas on the model\<close>

lemma calls_append: "calls (xs @ ys) = calls xs @ calls ys"
  by (induction xs rule: calls.induct) simp_all

lemma calls_failure_report: "calls (failure_report name r) = []"
  by (simp add: failure_report_def)

lemma process_record_inner:
  assumes "inner_payload E payload = Some v"
  shows "process_record E cfg payload ctx tr =
           (case py_contains ''trace'' v of
              Inl f \<Rightarrow> (Inl f, tr)
            | Inr True \<Rightarrow> (case py_getitem v ''trace'' of
                             Inl f \<Rightarrow> (Inl f, tr)
                           | Inr t \<Rightarrow> process_trace E cfg t ctx tr)
            | Inr False \<Rightarrow> process_log E cfg v ctx tr)"
  using assms
  by (auto simp: inner_payload_def process_record_def
           split: option.splits json.splits if_splits)

lemma process_log_eq:
  "process_log E cfg v ctx tr =
     (if log_struct E tr v (task_resource cfg ctx)
      then (Inr (), tr @ [LogStruct ''aws'' v (task_resource cfg ctx), PrintValue v])
      else (Inl SinkError, tr @ [LogStruct ''aws'' v (task_resource cfg ctx)]))"
  by (simp add: process_log_def task_resource_def REGION_def Let_def)

lemma process_trace_decoded:
  assumes "b64decode E t = Inr d"
  shows "process_trace E cfg t ctx tr =
     (case requests_post E tr (JAEGER_COLLECTOR_URL cfg) thrift_headers d of
        None \<Rightarrow> (Inl HttpError, tr @ [Post (JAEGER_COLLECTOR_URL cfg) thrift_headers d])
      | Some r1 \<Rightarrow>
          (case requests_post E (tr @ Post (JAEGER_COLLECTOR_URL cfg) thrift_headers d # failure_report ''Jaeger'' r1)
                  (STACKDRIVER_COLLECTOR_URL cfg) thrift_headers d of
             None \<Rightarrow> (Inl HttpError,
                       tr @ Post (JAEGER_COLLECTOR_URL cfg) thrift_headers d # failure_report ''Jaeger'' r1
                          @ [Post (STACKDRIVER_COLLECTOR_URL cfg) thrift_headers d])
           | Some r2 \<Rightarrow> (Inr (),
                       tr @ Post (JAEGER_COLLECTOR_URL cfg) thrift_headers d # failure_report ''Jaeger'' r1
                          @ Post (STACKDRIVER_COLLECTOR_URL cfg) thrift_headers d # failure_report ''Stackdriver'' r2)))"
  using assms
  by (simp add: process_trace_def thrift_headers_def failure_report_def Let_def split: option.splits)

lemma process_trace_undecoded:
  "b64decode E t = Inl f \<Longrightarrow> process_trace E cfg t ctx tr = (Inl f, tr)"
  by (simp add: process_trace_def)

lemma process_log_extends:
  "\<exists>es. snd (process_log E cfg v ctx tr) = tr @ es \<and> calls es = []"
  by (simp add: process_log_eq)

lemma process_trace_extends:
  "\<exists>es. snd (process_trace E cfg t ctx tr) = tr @ es \<and> calls es = []"
proof (cases "b64decode E t")
  case (Inl f)
  then show ?thesis by (simp add: process_trace_undecoded)
next
  case (Inr d)
  then show ?thesis
    by (auto simp: process_trace_decoded calls_append calls_failure_report split: option.splits)
qed

lemma process_record_extends:
  "\<exists>es. snd (process_record E cfg payload ctx tr) = tr @ es \<and> calls es = []"
  using process_log_extends [of E cfg _ ctx tr] process_trace_extends [of E cfg _ ctx tr]
  by (auto simp: process_record_def split: option.splits sum.splits bool.splits)

lemma handler_loop_append:
  "handler_loop E cfg (xs @ ys) ctx tr =
     (case handler_loop E cfg xs ctx tr of
        (Inl f, tr') \<Rightarrow> (Inl f, tr')
      | (Inr u, tr') \<Rightarrow> handler_loop E cfg ys ctx tr')"
  by (induction xs arbitrary: tr) (auto split: sum.splits prod.splits)

lemma trace_key_present:
  "map_of kvs k = Some t \<Longrightarrow> py_contains k (JObj kvs) = Inr True \<and> py_getitem (JObj kvs) k = Inr t"
  by (simp add: map_of_SomeD image_iff) (metis fst_conv map_of_SomeD)

lemma trace_key_absent:
  "map_of kvs k = None \<Longrightarrow> py_contains k (JObj kvs) = Inr False"
  by (simp add: map_of_eq_None_iff)

lemma lacks_data_KeyError:
  "lacks_data r \<Longrightarrow> record_payload E r = Inl (KeyError ''kinesis'') \<or> record_payload E r = Inl (KeyError ''data'')"
  by (cases r) (auto simp: record_payload_def split: option.splits json.splits)

lemma handler_loop_faults_at:
  assumes "record_payload E r = Inl f"
  shows "\<exists>g tr'. handler_loop E cfg (pre @ r # post) ctx tr = (Inl g, tr')"
proof (induction pre arbitrary: tr)
  case Nil
  then show ?case using assms by simp
next
  case (Cons a pre)
  then show ?case
    by (auto split: sum.splits prod.splits)
qed



lemma handler_loop_calls:
  "\<exists>ps. calls (snd (handler_loop E cfg rs ctx tr)) = calls tr @ ps
        \<and> length ps \<le> length rs
        \<and> map Inr ps = map (record_payload E) (take (length ps) rs)
        \<and> (fst (handler_loop E cfg rs ctx tr) = Inr () \<longrightarrow>
             length ps = length rs
             \<and> sequential_run E cfg ps ctx tr = handler_loop E cfg rs ctx tr)"
proof (induction rs arbitrary: tr)
  case Nil
  show ?case by simp
next
  case (Cons r rs)
  show ?case
  proof (cases "record_payload E r")
    case (Inl f)
    then have "handler_loop E cfg (r # rs) ctx tr = (Inl f, tr)" by simp
    then show ?thesis by simp
  next
    case (Inr p)
    obtain x tr1 where run: "process_record E cfg p ctx (tr @ [ProcessRecord p]) = (x, tr1)"
      by (cases "process_record E cfg p ctx (tr @ [ProcessRecord p])")
    from process_record_extends [of E cfg p ctx "tr @ [ProcessRecord p]"] run
    obtain es where "tr1 = (tr @ [ProcessRecord p]) @ es" "calls es = []"
      by auto
    then have c1: "calls tr1 = calls tr @ [p]"
      by (simp add: calls_append)
    show ?thesis
    proof (cases x)
      case (Inl f)
      with Inr run have "handler_loop E cfg (r # rs) ctx tr = (Inl f, tr1)" by simp
      with c1 Inr have "calls (snd (handler_loop E cfg (r # rs) ctx tr)) = calls tr @ [p]
          \<and> length [p] \<le> length (r # rs)
          \<and> map Inr [p] = map (record_payload E) (take (length [p]) (r # rs))
          \<and> (fst (handler_loop E cfg (r # rs) ctx tr) = Inr () \<longrightarrow>
               length [p] = length (r # rs)
               \<and> sequential_run E cfg [p] ctx tr = handler_loop E cfg (r # rs) ctx tr)"
        by simp
      then show ?thesis by blast
    next
      case (Inr u)
      with \<open>record_payload E r = Inr p\<close> run
      have step: "handler_loop E cfg (r # rs) ctx tr = handler_loop E cfg rs ctx tr1" by simp
      from Cons.IH [of tr1] obtain ps where
        ih: "calls (snd (handler_loop E cfg rs ctx tr1)) = calls tr1 @ ps"
            "length ps \<le> length rs"
            "map Inr ps = map (record_payload E) (take (length ps) rs)"
            "fst (handler_loop E cfg rs ctx tr1) = Inr () \<longrightarrow>
               length ps = length rs
               \<and> sequential_run E cfg ps ctx tr1 = handler_loop E cfg rs ctx tr1"
        by blast
      have "calls (snd (handler_loop E cfg (r # rs) ctx tr)) = calls tr @ (p # ps)
          \<and> length (p # ps) \<le> length (r # rs)
          \<and> map Inr (p # ps) = map (record_payload E) (take (length (p # ps)) (r # rs))
          \<and> (fst (handler_loop E cfg (r # rs) ctx tr) = Inr () \<longrightarrow>
               length (p # ps) = length (r # rs)
               \<and> sequential_run E cfg (p # ps) ctx tr = handler_loop E cfg (r # rs) ctx tr)"
        using ih c1 step run Inr \<open>record_payload E r = Inr p\<close> by simp
      then show ?thesis by blast
    qed
  qed
qed

subsection \<open>Lemmas on base64\<close>

lemma index_of_Some: "index_of c xs = Some n \<Longrightarrow> n < length xs \<and> xs ! n = c"
  by (induction xs arbitrary: n) (auto split: if_splits)

lemma index_of_mem: "c \<in> set xs \<Longrightarrow> \<exists>n. index_of c xs = Some n"
  by (induction xs) auto

lemma index_of_nth: "distinct xs \<Longrightarrow> n < length xs \<Longrightarrow> index_of (xs ! n) xs = Some n"
proof (induction xs arbitrary: n)
  case Nil
  then show ?case by simp
next
  case (Cons x xs)
  then show ?case by (cases n) auto
qed

lemma length_b64_alphabet: "length b64_alphabet = 64"
  by (simp add: b64_alphabet_def)

lemma distinct_b64_alphabet: "distinct b64_alphabet"
  by (simp add: b64_alphabet_def)

lemma pad_not_b64: "CHR ''='' \<notin> set b64_alphabet"
  by (simp add: b64_alphabet_def)

lemma b64_value_sextet: "n < 64 \<Longrightarrow> b64_value (sextet n) = Some n"
  by (simp add: b64_value_def sextet_def index_of_nth distinct_b64_alphabet length_b64_alphabet)

lemma sextet_is_b64: "n < 64 \<Longrightarrow> is_b64 (sextet n)"
  by (simp add: is_b64_def sextet_def length_b64_alphabet)

lemma sextet_not_pad: "n < 64 \<Longrightarrow> sextet n \<noteq> CHR ''=''"
  using pad_not_b64 sextet_is_b64 [of n] by (auto simp: is_b64_def)

lemma is_b64_value: "is_b64 c \<Longrightarrow> \<exists>n. b64_value c = Some n"
  by (simp add: is_b64_def b64_value_def index_of_mem)

lemma valid_base64_decodes: "valid_base64 s \<Longrightarrow> \<exists>p. b64decode_std s = Some p"
proof (induction s rule: valid_base64.induct)
  case 1
  show ?case by simp
next
  case (2 a b c d rest)
  show ?case
  proof (cases "rest = []")
    case True
    with 2(2) have v: "is_b64 a" "is_b64 b"
      "(c = CHR ''='' \<and> d = CHR ''='') \<or> (is_b64 c \<and> (d = CHR ''='' \<or> is_b64 d))"
      by simp_all
    from v(1,2) obtain p q where pq: "b64_value a = Some p" "b64_value b = Some q"
      using is_b64_value by blast
    from v(3) have "\<exists>bs. b64_last a b c d = Some bs"
    proof (elim disjE conjE)
      assume "c = CHR ''=''" "d = CHR ''=''"
      then show ?thesis using pq by (simp add: b64_last_def)
    next
      assume c: "is_b64 c" and "d = CHR ''=''"
      then show ?thesis using pq is_b64_value [OF c] by (auto simp: b64_last_def)
    next
      assume c: "is_b64 c" and d: "is_b64 d"
      then show ?thesis
        using pq is_b64_value [OF c] is_b64_value [OF d]
        by (auto simp: b64_last_def b64_quad_def)
    qed
    with True show ?thesis by simp
  next
    case False
    with 2(2) have v: "is_b64 a" "is_b64 b" "is_b64 c" "is_b64 d" "valid_base64 rest"
      by simp_all
    from 2(1) [OF False v(5)] obtain bs where "b64decode_std rest = Some bs" by blast
    moreover have "\<exists>q. b64_quad a b c d = Some q"
      using is_b64_value [OF v(1)] is_b64_value [OF v(2)] is_b64_value [OF v(3)] is_b64_value [OF v(4)]
      by (auto simp: b64_quad_def)
    ultimately show ?thesis using False by auto
  qed
qed simp_all

lemma sextet_bounds:
  fixes x y z :: nat
  assumes "x < 256" "y < 256" "z < 256"
  shows "x div 4 < 64" "x mod 4 * 16 + y div 16 < 64" "y mod 16 * 4 + z div 64 < 64" "z mod 64 < 64"
    "x mod 4 * 16 < 64" "y mod 16 * 4 < 64"
proof -
  have "x mod 4 \<le> 3" "y mod 16 \<le> 15" by simp_all
  then have m: "x mod 4 * 16 \<le> 48" "y mod 16 * 4 \<le> 60" by simp_all
  have d: "y div 16 < 16" "z div 64 < 4" using assms by simp_all
  show "x div 4 < 64" using assms by simp
  show "x mod 4 * 16 + y div 16 < 64" using m d by simp
  show "y mod 16 * 4 + z div 64 < 64" using m d by simp
  show "z mod 64 < 64" by simp
  show "x mod 4 * 16 < 64" using m by simp
  show "y mod 16 * 4 < 64" using m by simp
qed

lemma sextet_bytes:
  fixes x y z :: nat
  assumes "y < 256" "z < 256"
  shows "x div 4 * 4 + (x mod 4 * 16 + y div 16) div 16 = x"
    "(x mod 4 * 16 + y div 16) mod 16 * 16 + (y mod 16 * 4 + z div 64) div 4 = y"
    "(y mod 16 * 4 + z div 64) mod 4 * 64 + z mod 64 = z"
    "x div 4 * 4 + (x mod 4 * 16) div 16 = x"
    "(x mod 4 * 16 + y div 16) mod 16 * 16 + (y mod 16 * 4) div 4 = y"
  using assms by simp_all

lemma b64encode_Nil_iff: "b64encode bs = [] \<longleftrightarrow> bs = []"
  by (induction bs rule: b64encode.induct) (simp_all add: Let_def)

lemma b64_quad_sextets:
  fixes a b c :: char
  defines "x \<equiv> of_char a :: nat" and "y \<equiv> of_char b :: nat" and "z \<equiv> of_char c :: nat"
  shows "b64_quad (sextet (x div 4)) (sextet (x mod 4 * 16 + y div 16))
           (sextet (y mod 16 * 4 + z div 64)) (sextet (z mod 64)) = Some [a, b, c]"
proof -
  have bd: "x < 256" "y < 256" "z < 256" by (simp_all add: x_def y_def z_def)
  note sb = sextet_bounds [OF bd]
  have "b64_quad (sextet (x div 4)) (sextet (x mod 4 * 16 + y div 16))
           (sextet (y mod 16 * 4 + z div 64)) (sextet (z mod 64))
        = Some [char_of (x div 4 * 4 + (x mod 4 * 16 + y div 16) div 16),
                char_of ((x mod 4 * 16 + y div 16) mod 16 * 16 + (y mod 16 * 4 + z div 64) div 4),
                char_of ((y mod 16 * 4 + z div 64) mod 4 * 64 + z mod 64)]"
    by (simp add: b64_quad_def b64_value_sextet sb)
  also have "\<dots> = Some [char_of x, char_of y, char_of z]"
    by (simp only: sextet_bytes [OF bd(2,3)])
  finally show ?thesis by (simp add: x_def y_def z_def)
qed

lemma b64_roundtrip: "b64decode_std (b64encode bs) = Some bs"
proof (induction bs rule: b64encode.induct)
  case 1
  show ?case by simp
next
  case (2 a)
  define x where "x = (of_char a :: nat)"
  have bd: "x < 256" by (simp add: x_def)
  note sb = sextet_bounds [OF bd bd bd]
  have "b64decode_std (b64encode [a]) = Some [char_of (x div 4 * 4 + (x mod 4 * 16) div 16)]"
    by (simp add: Let_def x_def [symmetric] b64_last_def b64_value_sextet sb)
  also have "\<dots> = Some [char_of x]"
    by (simp only: sextet_bytes [OF bd bd])
  finally show ?case by (simp add: x_def)
next
  case (3 a b)
  define x where "x = (of_char a :: nat)"
  define y where "y = (of_char b :: nat)"
  have bd: "x < 256" "y < 256" by (simp_all add: x_def y_def)
  note sb = sextet_bounds [OF bd bd(2)]
  have np: "sextet (y mod 16 * 4) \<noteq> CHR ''=''"
    by (rule sextet_not_pad) (rule sb)
  have "b64decode_std (b64encode [a, b])
        = Some [char_of (x div 4 * 4 + (x mod 4 * 16 + y div 16) div 16),
                char_of ((x mod 4 * 16 + y div 16) mod 16 * 16 + (y mod 16 * 4) div 4)]"
    by (simp add: Let_def x_def [symmetric] y_def [symmetric] b64_last_def b64_value_sextet sb np)
  also have "\<dots> = Some [char_of x, char_of y]"
    by (simp only: sextet_bytes [OF bd(2) bd(2)])
  finally show ?case by (simp add: x_def y_def)
next
  case (4 a b c rest)
  define x where "x = (of_char a :: nat)"
  define y where "y = (of_char b :: nat)"
  define z where "z = (of_char c :: nat)"
  have bd: "x < 256" "y < 256" "z < 256" by (simp_all add: x_def y_def z_def)
  note sb = sextet_bounds [OF bd]
  have np: "sextet (z mod 64) \<noteq> CHR ''=''"
    by (rule sextet_not_pad) (rule sb)
  have q: "b64_quad (sextet (x div 4)) (sextet (x mod 4 * 16 + y div 16))
           (sextet (y mod 16 * 4 + z div 64)) (sextet (z mod 64)) = Some [a, b, c]"
    unfolding x_def y_def z_def by (rule b64_quad_sextets)
  have e: "b64encode (a # b # c # rest)
           = sextet (x div 4) # sextet (x mod 4 * 16 + y div 16)
             # sextet (y mod 16 * 4 + z div 64) # sextet (z mod 64) # b64encode rest"
    by (simp add: Let_def x_def y_def z_def)
  show ?case
  proof (cases "rest = []")
    case True
    show ?thesis
      unfolding e using True by (simp add: b64_last_def np q)
  next
    case False
    then have "b64encode rest \<noteq> []" by (simp add: b64encode_Nil_iff)
    with 4 show ?thesis
      unfolding e by (simp add: q)
  qed
qed

lemma valid_b64encode: "valid_base64 (b64encode bs)"
proof (induction bs rule: b64encode.induct)
  case 1
  show ?case by simp
next
  case (2 a)
  have bd: "(of_char a :: nat) < 256" by simp
  note sb = sextet_bounds [OF bd bd bd]
  show ?case by (simp add: Let_def sextet_is_b64 sb)
next
  case (3 a b)
  have bd: "(of_char a :: nat) < 256" "(of_char b :: nat) < 256" by simp_all
  note sb = sextet_bounds [OF bd bd(2)]
  show ?case by (simp add: Let_def sextet_is_b64 sb)
next
  case (4 a b c rest)
  have bd: "(of_char a :: nat) < 256" "(of_char b :: nat) < 256" "(of_char c :: nat) < 256" by simp_all
  note sb = sextet_bounds [OF bd]
  show ?case using 4 by (simp add: Let_def sextet_is_b64 sb)
qed

subsection \<open>The claims\<close>

text \<open>
  C1, as the code has it.  For a record whose inner payload is an object with a \<open>trace\<close>
  key, when the \<open>trace\<close> value base64-decodes and both calls of \<open>requests.post\<close> return
  a response, \<open>_process_record\<close> returns normally after exactly two POSTs, the first to
  the trace-collector URL and the second to the log-aggregation URL, each with the decoded
  value as body and the single header \<open>Content-Type: application/x-thrift\<close>, and with no
  structured-log write.  The claim without the two conditions fails: a \<open>trace\<close> value
  that does not decode gives no POST, and a first POST that raises gives one.
\<close>

theorem trace_record_two_posts:
  assumes "inner_payload E payload = Some (JObj kvs)"
    and "map_of kvs ''trace'' = Some t"
    and "b64decode E t = Inr d"
    and "requests_post E tr (JAEGER_COLLECTOR_URL cfg) [(''Content-Type'', ''application/x-thrift'')] d = Some r1"
    and "requests_post E
           (tr @ Post (JAEGER_COLLECTOR_URL cfg) [(''Content-Type'', ''application/x-thrift'')] d
               # failure_report ''Jaeger'' r1)
           (STACKDRIVER_COLLECTOR_URL cfg) [(''Content-Type'', ''application/x-thrift'')] d = Some r2"
  shows "\<exists>es. process_record E cfg payload ctx tr = (Inr (), tr @ es)
              \<and> filter is_post es
                   = [Post (JAEGER_COLLECTOR_URL cfg) [(''Content-Type'', ''application/x-thrift'')] d,
                      Post (STACKDRIVER_COLLECTOR_URL cfg) [(''Content-Type'', ''application/x-thrift'')] d]
              \<and> filter is_log_write es = []"
proof -
  let ?hs = "[(''Content-Type'', ''application/x-thrift'')]"
  let ?es = "Post (JAEGER_COLLECTOR_URL cfg) ?hs d # failure_report ''Jaeger'' r1
              @ Post (STACKDRIVER_COLLECTOR_URL cfg) ?hs d # failure_report ''Stackdriver'' r2"
  have "process_record E cfg payload ctx tr = process_trace E cfg t ctx tr"
    using process_record_inner [OF assms(1)] trace_key_present [OF assms(2)] by simp
  also have "\<dots> = (Inr (), tr @ ?es)"
    using assms(4,5) by (simp add: process_trace_decoded [OF assms(3)] thrift_headers_def)
  finally have run: "process_record E cfg payload ctx tr = (Inr (), tr @ ?es)" .
  have "filter is_post ?es = [Post (JAEGER_COLLECTOR_URL cfg) ?hs d, Post (STACKDRIVER_COLLECTOR_URL cfg) ?hs d]"
    by (simp add: failure_report_def)
  moreover have "filter is_log_write ?es = []"
    by (simp add: failure_report_def)
  ultimately show ?thesis using run by blast
qed

theorem trace_record_two_posts_witness:
  "inner_payload sample_env payload_trace = Some (JObj [(''trace'', JStr ''AAA='')])
   \<and> b64decode sample_env (JStr ''AAA='') = Inr [CHR 0x00, CHR 0x00]
   \<and> (\<exists>es. process_record sample_env sample_cfg payload_trace sample_ctx [] = (Inr (), [] @ es)
          \<and> filter is_post es
               = [Post ''http://jaeger/api/traces'' [(''Content-Type'', ''application/x-thrift'')] [CHR 0x00, CHR 0x00],
                  Post ''http://stackdriver/api/traces'' [(''Content-Type'', ''application/x-thrift'')] [CHR 0x00, CHR 0x00]]
          \<and> filter is_log_write es = [])"
proof -
  have i: "inner_payload sample_env payload_trace = Some (JObj [(''trace'', JStr ''AAA='')])"
    by code_simp
  have m: "map_of [(''trace'', JStr ''AAA='')] ''trace'' = Some (JStr ''AAA='')"
    by simp
  have b: "b64decode sample_env (JStr ''AAA='') = Inr [CHR 0x00, CHR 0x00]"
    by code_simp
  have p1: "requests_post sample_env [] (JAEGER_COLLECTOR_URL sample_cfg)
              [(''Content-Type'', ''application/x-thrift'')] [CHR 0x00, CHR 0x00]
            = Some \<lparr>ok = True, content = []\<rparr>"
    by (simp add: sample_env_def post_ok_def)
  have p2: "requests_post sample_env
              ([] @ Post (JAEGER_COLLECTOR_URL sample_cfg) [(''Content-Type'', ''application/x-thrift'')] [CHR 0x00, CHR 0x00]
                  # failure_report ''Jaeger'' \<lparr>ok = True, content = []\<rparr>)
              (STACKDRIVER_COLLECTOR_URL sample_cfg)
              [(''Content-Type'', ''application/x-thrift'')] [CHR 0x00, CHR 0x00]
            = Some \<lparr>ok = True, content = []\<rparr>"
    by (simp add: sample_env_def post_ok_def)
  have urls: "JAEGER_COLLECTOR_URL sample_cfg = ''http://jaeger/api/traces''"
    "STACKDRIVER_COLLECTOR_URL sample_cfg = ''http://stackdriver/api/traces''"
    by (simp_all add: sample_cfg_def)
  from trace_record_two_posts [OF i m b p1 p2, of sample_ctx] i b
  show ?thesis unfolding urls by simp
qed

theorem trace_record_without_posts_counterexample:
  "inner_payload sample_env payload_badtrace = Some (JObj [(''trace'', JInt 5)])
   \<and> process_record sample_env sample_cfg payload_badtrace sample_ctx [] = (Inl Base64Error, [])
   \<and> length (filter is_post (snd (process_record sample_env sample_cfg payload_badtrace sample_ctx []))) = 0
   \<and> inner_payload env_post_raises payload_trace = Some (JObj [(''trace'', JStr ''AAA='')])
   \<and> process_record env_post_raises sample_cfg payload_trace sample_ctx []
       = (Inl HttpError,
          [Post ''http://jaeger/api/traces'' [(''Content-Type'', ''application/x-thrift'')] [CHR 0x00, CHR 0x00]])
   \<and> length (filter is_post (snd (process_record env_post_raises sample_cfg payload_trace sample_ctx []))) = 1"
  by code_simp

text \<open>
  C2, as the code has it.  For a record whose inner payload is an object without a
  \<open>trace\<close> key, \<open>_process_record\<close> makes exactly one structured-log write, of the whole
  inner payload on the logger \<open>aws\<close>, and no POST.  The resource of the write has type
  \<open>generic_task\<close> and the labels \<open>namespace = default\<close>, \<open>job = router\<close>, \<open>task_id\<close> the
  request identifier of the context and \<open>location\<close> the string \<open>aws:\<close> followed by the
  configured region.  When the write returns, one \<open>print\<close> of the payload follows; when
  it raises, the fault propagates and nothing is printed.  The claim as written promises the
  standard-output write in every case, and it fails as well for an inner payload that
  is not a container.
\<close>

theorem log_record_write:
  assumes "inner_payload E payload = Some (JObj kvs)"
    and "map_of kvs ''trace'' = None"
  shows "process_record E cfg payload ctx tr
           = (if log_struct E tr (JObj kvs) (task_resource cfg ctx)
              then (Inr (), tr @ [LogStruct ''aws'' (JObj kvs) (task_resource cfg ctx), PrintValue (JObj kvs)])
              else (Inl SinkError, tr @ [LogStruct ''aws'' (JObj kvs) (task_resource cfg ctx)]))
         \<and> rtype (task_resource cfg ctx) = ''generic_task''
         \<and> map (map_of (labels (task_resource cfg ctx))) [''namespace'', ''job'', ''task_id'', ''location'']
             = [Some ''default'', Some ''router'', Some (aws_request_id ctx), Some (''aws:'' @ AWS_REGION cfg)]
         \<and> map fst (labels (task_resource cfg ctx)) = [''location'', ''namespace'', ''job'', ''task_id'']"
proof -
  have "process_record E cfg payload ctx tr = process_log E cfg (JObj kvs) ctx tr"
    using process_record_inner [OF assms(1)] trace_key_absent [OF assms(2)] by simp
  then show ?thesis
    by (simp add: process_log_eq) (simp add: task_resource_def)
qed

theorem log_record_write_witness:
  "inner_payload sample_env payload_log = Some (JObj [(''message'', JStr ''hello'')])
   \<and> process_record sample_env sample_cfg payload_log sample_ctx []
       = (Inr (), [LogStruct ''aws'' (JObj [(''message'', JStr ''hello'')]) (task_resource sample_cfg sample_ctx),
                   PrintValue (JObj [(''message'', JStr ''hello'')])])
   \<and> map (map_of (labels (task_resource sample_cfg sample_ctx))) [''namespace'', ''job'', ''task_id'', ''location'']
       = [Some ''default'', Some ''router'', Some ''req-1'', Some ''aws:us-east-1'']"
proof -
  have i: "inner_payload sample_env payload_log = Some (JObj [(''message'', JStr ''hello'')])"
    by code_simp
  have m: "map_of [(''message'', JStr ''hello'')] ''trace'' = None"
    by simp
  have s: "log_struct sample_env [] (JObj [(''message'', JStr ''hello'')]) (task_resource sample_cfg sample_ctx)"
    by (simp add: sample_env_def sink_ok_def)
  have c: "aws_request_id sample_ctx = ''req-1''" "''aws:'' @ AWS_REGION sample_cfg = ''aws:us-east-1''"
    by (simp_all add: sample_ctx_def sample_cfg_def)
  from log_record_write [OF i m, of sample_cfg sample_ctx "[]"] i s c
  show ?thesis by simp
qed

theorem log_record_write_counterexample:
  "inner_payload env_sink_raises payload_log = Some (JObj [(''message'', JStr ''hello'')])
   \<and> process_record env_sink_raises sample_cfg payload_log sample_ctx []
       = (Inl SinkError,
          [LogStruct ''aws'' (JObj [(''message'', JStr ''hello'')])
             \<lparr>rtype = ''generic_task'',
              labels = [(''location'', ''aws:us-east-1''), (''namespace'', ''default''),
                        (''job'', ''router''), (''task_id'', ''req-1'')]\<rparr>])
   \<and> filter is_stdout (snd (process_record env_sink_raises sample_cfg payload_log sample_ctx [])) = []
   \<and> inner_payload sample_env payload_five = Some (JInt 5)
   \<and> process_record sample_env sample_cfg payload_five sample_ctx [] = (Inl TypeError_membership, [])
   \<and> filter is_log_write (snd (process_record sample_env sample_cfg payload_five sample_ctx [])) = []"
  by code_simp

text \<open>
  C3, as the code has it.  A record is skipped silently when its decoded bytes are not
  JSON, or they parse to an object whose \<open>log\<close> field is absent or falsy, or whose \<open>log\<close>
  value does not parse (a \<open>log\<close> value that is not a string raises in \<open>json.loads\<close> and
  is caught as well): \<open>_process_record\<close> returns normally with the trace unchanged, so
  there is no POST, no structured-log write and no fault, and the loop goes on with the
  next record.  The claim for every record fails: decoded bytes that are JSON but not an
  object (\<open>5\<close>, \<open>[]\<close>) have no \<open>log\<close> field, and for them \<open>payload.get\<close> at line 35,
  outside both \<open>try\<close> blocks, raises and ends the batch.
\<close>

theorem skipped_record_is_silent:
  assumes "record_payload E r = Inr payload"
    and "json_loads E payload = None
         \<or> (\<exists>kvs. json_loads E payload = Some (JObj kvs) \<and>
               (map_of kvs ''log'' = None
                \<or> (\<exists>l. map_of kvs ''log'' = Some l \<and> (\<not> truthy l \<or> loads_value E l = None))))"
  shows "process_record E cfg payload ctx tr = (Inr (), tr)
         \<and> handler_loop E cfg (r # rs) ctx tr
             = handler_loop E cfg rs ctx (tr @ [ProcessRecord payload])"
proof -
  have skip: "process_record E cfg payload ctx tr0 = (Inr (), tr0)" for tr0
    using assms(2) by (auto simp: process_record_def)
  show ?thesis
    using assms(1) by (simp add: skip)
qed

theorem skipped_record_is_silent_witness:
  "record_payload sample_env rec_not_json = Inr ''not json''
   \<and> json_loads sample_env ''not json'' = None
   \<and> process_record sample_env sample_cfg ''not json'' sample_ctx [] = (Inr (), [])
   \<and> handler_loop sample_env sample_cfg [rec_not_json, rec_no_log] sample_ctx []
        = handler_loop sample_env sample_cfg [rec_no_log] sample_ctx [ProcessRecord ''not json'']
   \<and> json_loads sample_env ''{}'' = Some (JObj [])
   \<and> process_record sample_env sample_cfg ''{}'' sample_ctx [] = (Inr (), [])
   \<and> json_loads sample_env payload_empty_log = Some (JObj [(''log'', JStr [])])
   \<and> process_record sample_env sample_cfg payload_empty_log sample_ctx [] = (Inr (), [])
   \<and> json_loads sample_env payload_bad_inner = Some (JObj [(''log'', JStr ''oops'')])
   \<and> loads_value sample_env (JStr ''oops'') = None
   \<and> process_record sample_env sample_cfg payload_bad_inner sample_ctx [] = (Inr (), [])"
proof -
  have p1: "record_payload sample_env rec_not_json = Inr ''not json''"
    by code_simp
  have j1: "json_loads sample_env ''not json'' = None"
    by code_simp
  have p2: "record_payload sample_env rec_no_log = Inr ''{}''"
    by code_simp
  have j2: "json_loads sample_env ''{}'' = Some (JObj [])"
    by code_simp
  have p3: "record_payload sample_env rec_empty_log = Inr payload_empty_log"
    by code_simp
  have j3: "json_loads sample_env payload_empty_log = Some (JObj [(''log'', JStr [])])"
    by code_simp
  have p4: "record_payload sample_env rec_bad_inner = Inr payload_bad_inner"
    by code_simp
  have j4: "json_loads sample_env payload_bad_inner = Some (JObj [(''log'', JStr ''oops'')])"
    by code_simp
  have l4: "loads_value sample_env (JStr ''oops'') = None"
    by code_simp
  from skipped_record_is_silent [OF p1, of sample_cfg sample_ctx "[]" "[rec_no_log]"] j1
  have r1: "process_record sample_env sample_cfg ''not json'' sample_ctx [] = (Inr (), [])"
    "handler_loop sample_env sample_cfg [rec_not_json, rec_no_log] sample_ctx []
        = handler_loop sample_env sample_cfg [rec_no_log] sample_ctx [ProcessRecord ''not json'']"
    by simp_all
  from skipped_record_is_silent [OF p2, of sample_cfg sample_ctx "[]" "[]"] j2
  have r2: "process_record sample_env sample_cfg ''{}'' sample_ctx [] = (Inr (), [])"
    by simp
  from skipped_record_is_silent [OF p3, of sample_cfg sample_ctx "[]" "[]"] j3
  have r3: "process_record sample_env sample_cfg payload_empty_log sample_ctx [] = (Inr (), [])"
    by simp
  from skipped_record_is_silent [OF p4, of sample_cfg sample_ctx "[]" "[]"] j4 l4
  have r4: "process_record sample_env sample_cfg payload_bad_inner sample_ctx [] = (Inr (), [])"
    by simp
  from p1 j1 r1 j2 r2 j3 r3 j4 l4 r4 show ?thesis
    by (intro conjI)
qed

theorem non_object_payload_counterexample:
  "record_payload sample_env rec_outer_five = Inr ''5''
   \<and> json_loads sample_env ''5'' = Some (JInt 5)
   \<and> process_record sample_env sample_cfg ''5'' sample_ctx [] = (Inl AttributeError_get, [])
   \<and> lambda_handler sample_env sample_cfg \<lparr>Records = [rec_outer_five, rec_log]\<rparr> sample_ctx []
       = (Inl AttributeError_get, [ProcessRecord ''5''])
   \<and> record_payload sample_env rec_outer_list = Inr ''[]''
   \<and> json_loads sample_env ''[]'' = Some (JArr [])
   \<and> lambda_handler sample_env sample_cfg \<lparr>Records = [rec_outer_list, rec_log]\<rparr> sample_ctx []
       = (Inl AttributeError_get, [ProcessRecord ''[]''])"
  by code_simp

text \<open>
  C4, as the code has it.  The per-record calls of a run are made for an initial segment
  of the batch, one call per record, in input order, on the decoded payloads.  When the
  handler returns normally the segment is the whole batch, so there are exactly \<open>N\<close>
  calls, and the run is \<open>sequential_run\<close> on the payloads: each call starts from the
  trace the previous call left.  The claim for every batch fails: a fault in one record
  ends the loop, and the records after it get no call.
\<close>

theorem per_record_calls_in_order:
  "\<exists>ps. calls (snd (lambda_handler E cfg ev ctx tr)) = calls tr @ ps
        \<and> length ps \<le> length (Records ev)
        \<and> map Inr ps = map (record_payload E) (take (length ps) (Records ev))
        \<and> (\<forall>s. fst (lambda_handler E cfg ev ctx tr) = Inr s \<longrightarrow>
             length ps = length (Records ev)
             \<and> sequential_run E cfg ps ctx tr = (Inr (), snd (lambda_handler E cfg ev ctx tr)))"
proof -
  from handler_loop_calls [of E cfg "Records ev" ctx tr] obtain ps where
    h: "calls (snd (handler_loop E cfg (Records ev) ctx tr)) = calls tr @ ps"
       "length ps \<le> length (Records ev)"
       "map Inr ps = map (record_payload E) (take (length ps) (Records ev))"
       "fst (handler_loop E cfg (Records ev) ctx tr) = Inr () \<longrightarrow>
          length ps = length (Records ev)
          \<and> sequential_run E cfg ps ctx tr = handler_loop E cfg (Records ev) ctx tr"
    by blast
  obtain x tr' where run: "handler_loop E cfg (Records ev) ctx tr = (x, tr')"
    by (cases "handler_loop E cfg (Records ev) ctx tr")
  have "calls (snd (lambda_handler E cfg ev ctx tr)) = calls tr @ ps
        \<and> length ps \<le> length (Records ev)
        \<and> map Inr ps = map (record_payload E) (take (length ps) (Records ev))
        \<and> (\<forall>s. fst (lambda_handler E cfg ev ctx tr) = Inr s \<longrightarrow>
             length ps = length (Records ev)
             \<and> sequential_run E cfg ps ctx tr = (Inr (), snd (lambda_handler E cfg ev ctx tr)))"
    using h run by (cases x) (auto simp: lambda_handler_def)
  then show ?thesis by blast
qed

theorem per_record_calls_in_order_witness:
  "lambda_handler sample_env sample_cfg \<lparr>Records = [rec_not_json, rec_log]\<rparr> sample_ctx []
     = (Inr ''Successfully processed 2 records.'',
        [ProcessRecord ''not json'', ProcessRecord payload_log,
         LogStruct ''aws'' (JObj [(''message'', JStr ''hello'')]) (task_resource sample_cfg sample_ctx),
         PrintValue (JObj [(''message'', JStr ''hello'')])])
   \<and> (\<exists>ps. calls [ProcessRecord ''not json'', ProcessRecord payload_log,
         LogStruct ''aws'' (JObj [(''message'', JStr ''hello'')]) (task_resource sample_cfg sample_ctx),
         PrintValue (JObj [(''message'', JStr ''hello'')])] = ps
        \<and> length ps = 2
        \<and> map Inr ps = map (record_payload sample_env) [rec_not_json, rec_log])"
proof -
  have run: "lambda_handler sample_env sample_cfg \<lparr>Records = [rec_not_json, rec_log]\<rparr> sample_ctx []
     = (Inr ''Successfully processed 2 records.'',
        [ProcessRecord ''not json'', ProcessRecord payload_log,
         LogStruct ''aws'' (JObj [(''message'', JStr ''hello'')]) (task_resource sample_cfg sample_ctx),
         PrintValue (JObj [(''message'', JStr ''hello'')])])"
    by code_simp
  from per_record_calls_in_order [of sample_env sample_cfg "\<lparr>Records = [rec_not_json, rec_log]\<rparr>" sample_ctx "[]"] run
  show ?thesis by auto
qed

theorem per_record_calls_counterexample:
  "length (Records \<lparr>Records = [rec_five, rec_log]\<rparr>) = 2
   \<and> lambda_handler sample_env sample_cfg \<lparr>Records = [rec_five, rec_log]\<rparr> sample_ctx []
       = (Inl TypeError_membership, [ProcessRecord payload_five])
   \<and> length (calls (snd (lambda_handler sample_env sample_cfg \<lparr>Records = [rec_five, rec_log]\<rparr> sample_ctx []))) = 1"
  by code_simp



text \<open>
  C6, as the code has it.  When the structured-log write of a log record raises, the
  fault leaves \<open>_process_log\<close>, \<open>_process_record\<close> and the loop: the handler ends with
  that fault, the trace ends with the failed write, and no record after it in the batch
  is processed, whatever those records are.  The records before it have been processed.
  The claim that the later records are unaffected fails.
\<close>

theorem sink_failure_aborts_batch:
  assumes "handler_loop E cfg pre ctx tr = (Inr (), tr1)"
    and "record_payload E r = Inr payload"
    and "inner_payload E payload = Some (JObj kvs)"
    and "map_of kvs ''trace'' = None"
    and "\<not> log_struct E (tr1 @ [ProcessRecord payload]) (JObj kvs) (task_resource cfg ctx)"
  shows "lambda_handler E cfg \<lparr>Records = pre @ r # post\<rparr> ctx tr
           = (Inl SinkError,
              tr1 @ [ProcessRecord payload, LogStruct ''aws'' (JObj kvs) (task_resource cfg ctx)])"
proof -
  have "process_record E cfg payload ctx (tr1 @ [ProcessRecord payload])
          = process_log E cfg (JObj kvs) ctx (tr1 @ [ProcessRecord payload])"
    using process_record_inner [OF assms(3)] trace_key_absent [OF assms(4)] by simp
  also have "\<dots> = (Inl SinkError,
                    tr1 @ [ProcessRecord payload, LogStruct ''aws'' (JObj kvs) (task_resource cfg ctx)])"
    using assms(5) by (simp add: process_log_eq)
  finally have "handler_loop E cfg (r # post) ctx tr1
          = (Inl SinkError,
             tr1 @ [ProcessRecord payload, LogStruct ''aws'' (JObj kvs) (task_resource cfg ctx)])"
    using assms(2) by simp
  then show ?thesis
    using assms(1) by (simp add: lambda_handler_def handler_loop_append)
qed

theorem sink_failure_aborts_batch_witness:
  "handler_loop env_sink_raises sample_cfg [rec_not_json] sample_ctx [] = (Inr (), [ProcessRecord ''not json''])
   \<and> record_payload env_sink_raises rec_log = Inr payload_log
   \<and> inner_payload env_sink_raises payload_log = Some (JObj [(''message'', JStr ''hello'')])
   \<and> lambda_handler env_sink_raises sample_cfg \<lparr>Records = [rec_not_json, rec_log, rec_trace]\<rparr> sample_ctx []
       = (Inl SinkError,
          [ProcessRecord ''not json'', ProcessRecord payload_log,
           LogStruct ''aws'' (JObj [(''message'', JStr ''hello'')]) (task_resource sample_cfg sample_ctx)])"
proof -
  have l: "handler_loop env_sink_raises sample_cfg [rec_not_json] sample_ctx [] = (Inr (), [ProcessRecord ''not json''])"
    by code_simp
  have p: "record_payload env_sink_raises rec_log = Inr payload_log"
    by code_simp
  have i: "inner_payload env_sink_raises payload_log = Some (JObj [(''message'', JStr ''hello'')])"
    by code_simp
  have m: "map_of [(''message'', JStr ''hello'')] ''trace'' = None"
    by simp
  have s: "\<not> log_struct env_sink_raises ([ProcessRecord ''not json''] @ [ProcessRecord payload_log])
               (JObj [(''message'', JStr ''hello'')]) (task_resource sample_cfg sample_ctx)"
    by (simp add: env_sink_raises_def sink_raises_def)
  from sink_failure_aborts_batch [OF l p i m s, of "[rec_trace]"] l p i
  show ?thesis by simp
qed

theorem sink_failure_counterexample:
  "lambda_handler env_sink_raises sample_cfg \<lparr>Records = [rec_log, rec_trace]\<rparr> sample_ctx []
     = (Inl SinkError,
        [ProcessRecord payload_log,
         LogStruct ''aws'' (JObj [(''message'', JStr ''hello'')])
           \<lparr>rtype = ''generic_task'',
            labels = [(''location'', ''aws:us-east-1''), (''namespace'', ''default''),
                      (''job'', ''router''), (''task_id'', ''req-1'')]\<rparr>])
   \<and> calls (snd (lambda_handler env_sink_raises sample_cfg \<lparr>Records = [rec_log, rec_trace]\<rparr> sample_ctx []))
       = [payload_log]
   \<and> lambda_handler env_sink_raises sample_cfg \<lparr>Records = [rec_trace]\<rparr> sample_ctx []
     = (Inr ''Successfully processed 1 records.'',
        [ProcessRecord payload_trace,
         Post ''http://jaeger/api/traces'' [(''Content-Type'', ''application/x-thrift'')] [CHR 0x00, CHR 0x00],
         Post ''http://stackdriver/api/traces'' [(''Content-Type'', ''application/x-thrift'')] [CHR 0x00, CHR 0x00]])"
  by code_simp

text \<open>
  C7, as the code has it.  For a trace record whose \<open>trace\<close> value decodes and whose
  first POST returns a response, ok or not, the second POST is made, once, with the same
  headers and body.  A response that is not ok is followed by one \<open>print\<close> of a fixed
  prefix and the response body, a string, and by nothing else: no second attempt, no
  fault.  When the second POST returns a response too, the loop goes on with the remaining
  records.  The claim for every trace record fails: a first POST that raises leaves the
  second POST unmade, a \<open>trace\<close> value that does not decode leaves both unmade, and
  either fault ends the batch.
\<close>

theorem trace_sends_independent:
  assumes "record_payload E r = Inr payload"
    and "inner_payload E payload = Some (JObj kvs)"
    and "map_of kvs ''trace'' = Some t"
    and "b64decode E t = Inr d"
    and "requests_post E (tr @ [ProcessRecord payload]) (JAEGER_COLLECTOR_URL cfg) thrift_headers d = Some r1"
  shows "(let tr2 = tr @ ProcessRecord payload # Post (JAEGER_COLLECTOR_URL cfg) thrift_headers d
                        # failure_report ''Jaeger'' r1
          in handler_loop E cfg (r # rs) ctx tr
               = (case requests_post E tr2 (STACKDRIVER_COLLECTOR_URL cfg) thrift_headers d of
                    None \<Rightarrow> (Inl HttpError, tr2 @ [Post (STACKDRIVER_COLLECTOR_URL cfg) thrift_headers d])
                  | Some r2 \<Rightarrow>
                      handler_loop E cfg rs ctx
                        (tr2 @ Post (STACKDRIVER_COLLECTOR_URL cfg) thrift_headers d
                             # failure_report ''Stackdriver'' r2)))
         \<and> thrift_headers = [(''Content-Type'', ''application/x-thrift'')]
         \<and> failure_report ''Jaeger'' r1
             = (if ok r1 then [] else [Print (''Failed to POST span to Jaeger: '' @ content r1)])
         \<and> (\<forall>r2. failure_report ''Stackdriver'' r2
             = (if ok r2 then [] else [Print (''Failed to POST span to Stackdriver: '' @ content r2)]))"
proof -
  let ?tr2 = "tr @ ProcessRecord payload # Post (JAEGER_COLLECTOR_URL cfg) thrift_headers d
                # failure_report ''Jaeger'' r1"
  have "process_record E cfg payload ctx (tr @ [ProcessRecord payload])
          = process_trace E cfg t ctx (tr @ [ProcessRecord payload])"
    using process_record_inner [OF assms(2)] trace_key_present [OF assms(3)] by simp
  then have "handler_loop E cfg (r # rs) ctx tr
           = (case requests_post E ?tr2 (STACKDRIVER_COLLECTOR_URL cfg) thrift_headers d of
                None \<Rightarrow> (Inl HttpError, ?tr2 @ [Post (STACKDRIVER_COLLECTOR_URL cfg) thrift_headers d])
              | Some r2 \<Rightarrow>
                  handler_loop E cfg rs ctx
                    (?tr2 @ Post (STACKDRIVER_COLLECTOR_URL cfg) thrift_headers d
                          # failure_report ''Stackdriver'' r2))"
    using assms(1,5)
    by (simp add: process_trace_decoded [OF assms(4)] split: option.splits)
  then have run: "(let tr2 = ?tr2
          in handler_loop E cfg (r # rs) ctx tr
               = (case requests_post E tr2 (STACKDRIVER_COLLECTOR_URL cfg) thrift_headers d of
                    None \<Rightarrow> (Inl HttpError, tr2 @ [Post (STACKDRIVER_COLLECTOR_URL cfg) thrift_headers d])
                  | Some r2 \<Rightarrow>
                      handler_loop E cfg rs ctx
                        (tr2 @ Post (STACKDRIVER_COLLECTOR_URL cfg) thrift_headers d
                             # failure_report ''Stackdriver'' r2)))"
    unfolding Let_def .
  have hs: "thrift_headers = [(''Content-Type'', ''application/x-thrift'')]"
    by (simp add: thrift_headers_def)
  have f1: "failure_report ''Jaeger'' r1
             = (if ok r1 then [] else [Print (''Failed to POST span to Jaeger: '' @ content r1)])"
    by (simp add: failure_report_def)
  have f2: "\<forall>r2. failure_report ''Stackdriver'' r2
             = (if ok r2 then [] else [Print (''Failed to POST span to Stackdriver: '' @ content r2)])"
    by (simp add: failure_report_def)
  from run hs f1 f2 show ?thesis
    by (intro conjI)
qed

theorem trace_sends_independent_witness:
  "record_payload env_jaeger_503 rec_trace = Inr payload_trace
   \<and> requests_post env_jaeger_503 [ProcessRecord payload_trace] ''http://jaeger/api/traces''
        [(''Content-Type'', ''application/x-thrift'')] [CHR 0x00, CHR 0x00]
       = Some \<lparr>ok = False, content = ''unavailable''\<rparr>
   \<and> handler_loop env_jaeger_503 sample_cfg [rec_trace, rec_log] sample_ctx []
       = (Inr (),
          [ProcessRecord payload_trace,
           Post ''http://jaeger/api/traces'' [(''Content-Type'', ''application/x-thrift'')] [CHR 0x00, CHR 0x00],
           Print ''Failed to POST span to Jaeger: unavailable'',
           Post ''http://stackdriver/api/traces'' [(''Content-Type'', ''application/x-thrift'')] [CHR 0x00, CHR 0x00],
           ProcessRecord payload_log,
           LogStruct ''aws'' (JObj [(''message'', JStr ''hello'')]) (task_resource sample_cfg sample_ctx),
           PrintValue (JObj [(''message'', JStr ''hello'')])])"
proof -
  have p: "record_payload env_jaeger_503 rec_trace = Inr payload_trace"
    by code_simp
  have i: "inner_payload env_jaeger_503 payload_trace = Some (JObj [(''trace'', JStr ''AAA='')])"
    by code_simp
  have m: "map_of [(''trace'', JStr ''AAA='')] ''trace'' = Some (JStr ''AAA='')"
    by simp
  have b: "b64decode env_jaeger_503 (JStr ''AAA='') = Inr [CHR 0x00, CHR 0x00]"
    by code_simp
  have urls: "JAEGER_COLLECTOR_URL sample_cfg = ''http://jaeger/api/traces''"
    "STACKDRIVER_COLLECTOR_URL sample_cfg = ''http://stackdriver/api/traces''"
    by (simp_all add: sample_cfg_def)
  have p1: "requests_post env_jaeger_503 ([] @ [ProcessRecord payload_trace]) (JAEGER_COLLECTOR_URL sample_cfg)
              thrift_headers [CHR 0x00, CHR 0x00]
            = Some \<lparr>ok = False, content = ''unavailable''\<rparr>"
    by (simp add: env_jaeger_503_def post_jaeger_503_def urls)
  have p2: "requests_post env_jaeger_503 tr0 ''http://stackdriver/api/traces'' thrift_headers [CHR 0x00, CHR 0x00]
            = Some \<lparr>ok = True, content = []\<rparr>" for tr0
    by (simp add: env_jaeger_503_def post_jaeger_503_def)
  have rest: "handler_loop env_jaeger_503 sample_cfg [rec_log] sample_ctx
          [ProcessRecord payload_trace,
           Post ''http://jaeger/api/traces'' [(''Content-Type'', ''application/x-thrift'')] [CHR 0x00, CHR 0x00],
           Print ''Failed to POST span to Jaeger: unavailable'',
           Post ''http://stackdriver/api/traces'' [(''Content-Type'', ''application/x-thrift'')] [CHR 0x00, CHR 0x00]]
       = (Inr (),
          [ProcessRecord payload_trace,
           Post ''http://jaeger/api/traces'' [(''Content-Type'', ''application/x-thrift'')] [CHR 0x00, CHR 0x00],
           Print ''Failed to POST span to Jaeger: unavailable'',
           Post ''http://stackdriver/api/traces'' [(''Content-Type'', ''application/x-thrift'')] [CHR 0x00, CHR 0x00],
           ProcessRecord payload_log,
           LogStruct ''aws'' (JObj [(''message'', JStr ''hello'')]) (task_resource sample_cfg sample_ctx),
           PrintValue (JObj [(''message'', JStr ''hello'')])])"
    by code_simp
  from trace_sends_independent [OF p i m b p1, of "[rec_log]" sample_ctx] p p1 p2 rest
  show ?thesis
    by (simp add: urls thrift_headers_def failure_report_def Let_def)
qed

theorem trace_sends_counterexample:
  "lambda_handler env_post_raises sample_cfg \<lparr>Records = [rec_trace, rec_log]\<rparr> sample_ctx []
     = (Inl HttpError,
        [ProcessRecord payload_trace,
         Post ''http://jaeger/api/traces'' [(''Content-Type'', ''application/x-thrift'')] [CHR 0x00, CHR 0x00]])
   \<and> length (filter is_post
         (snd (lambda_handler env_post_raises sample_cfg \<lparr>Records = [rec_trace, rec_log]\<rparr> sample_ctx []))) = 1
   \<and> lambda_handler sample_env sample_cfg \<lparr>Records = [rec_badtrace, rec_log]\<rparr> sample_ctx []
     = (Inl Base64Error, [ProcessRecord payload_badtrace])
   \<and> length (filter is_post
         (snd (lambda_handler sample_env sample_cfg \<lparr>Records = [rec_badtrace, rec_log]\<rparr> sample_ctx []))) = 0"
  by code_simp

text \<open>
  C8.  For a record whose data is a valid base64 encoding, the decode step of line 23
  cannot fail: the decoder returns a payload, which is the encoded byte string when the
  data is the encoding of one, and the lookup and the decode raise nothing.  The step
  writes nothing: the trace that reaches \<open>_process_record\<close> is the trace before the record
  plus the call marker.  The decoder is the one modelled above, and lemma
  \<open>valid_b64encode\<close> shows that every encoding is valid.
\<close>

theorem record_decode_step:
  assumes "py_getitem r ''kinesis'' = Inr k"
    and "py_getitem k ''data'' = Inr (JStr s)"
    and "valid_base64 s"
    and "b64decode_str E = b64decode_std"
  shows "\<exists>payload.
           b64decode_std s = Some payload
           \<and> record_payload E r = Inr payload
           \<and> handler_loop E cfg (r # rs) ctx tr
               = (case process_record E cfg payload ctx (tr @ [ProcessRecord payload]) of
                    (Inl f, tr') \<Rightarrow> (Inl f, tr')
                  | (Inr u, tr') \<Rightarrow> handler_loop E cfg rs ctx tr')
           \<and> (\<forall>bs. s = b64encode bs \<longrightarrow> payload = bs)"
proof -
  from valid_base64_decodes [OF assms(3)] obtain payload where
    p: "b64decode_std s = Some payload" by blast
  have rp: "record_payload E r = Inr payload"
    using assms(1,2,4) p by (simp add: record_payload_def)
  have step: "handler_loop E cfg (r # rs) ctx tr
               = (case process_record E cfg payload ctx (tr @ [ProcessRecord payload]) of
                    (Inl f, tr') \<Rightarrow> (Inl f, tr')
                  | (Inr u, tr') \<Rightarrow> handler_loop E cfg rs ctx tr')"
    using rp by simp
  have rt: "\<forall>bs. s = b64encode bs \<longrightarrow> payload = bs"
  proof (intro allI impI)
    fix bs assume "s = b64encode bs"
    with p have "b64decode_std (b64encode bs) = Some payload" by simp
    then show "payload = bs" by (simp add: b64_roundtrip)
  qed
  from p rp step rt show ?thesis by blast
qed

theorem record_decode_step_witness:
  "valid_base64 ''eyJsb2ciOiAie1wibWVzc2FnZVwiOlwiaGVsbG9cIn0ifQ==''
   \<and> b64encode payload_log = ''eyJsb2ciOiAie1wibWVzc2FnZVwiOlwiaGVsbG9cIn0ifQ==''
   \<and> b64decode_std ''eyJsb2ciOiAie1wibWVzc2FnZVwiOlwiaGVsbG9cIn0ifQ=='' = Some payload_log
   \<and> record_payload env_std_decoder rec_log = Inr payload_log
   \<and> handler_loop env_std_decoder sample_cfg [rec_log] sample_ctx []
       = (Inr (), [ProcessRecord payload_log,
            LogStruct ''aws'' (JObj [(''message'', JStr ''hello'')]) (task_resource sample_cfg sample_ctx),
            PrintValue (JObj [(''message'', JStr ''hello'')])])"
proof -
  have k: "py_getitem rec_log ''kinesis'' = Inr (JObj [(''data'', JStr ''eyJsb2ciOiAie1wibWVzc2FnZVwiOlwiaGVsbG9cIn0ifQ=='')])"
    by code_simp
  have d: "py_getitem (JObj [(''data'', JStr ''eyJsb2ciOiAie1wibWVzc2FnZVwiOlwiaGVsbG9cIn0ifQ=='')]) ''data''
             = Inr (JStr ''eyJsb2ciOiAie1wibWVzc2FnZVwiOlwiaGVsbG9cIn0ifQ=='')"
    by code_simp
  have v: "valid_base64 ''eyJsb2ciOiAie1wibWVzc2FnZVwiOlwiaGVsbG9cIn0ifQ==''"
    by code_simp
  have e: "b64decode_str env_std_decoder = b64decode_std"
    by (simp add: env_std_decoder_def)
  have enc: "b64encode payload_log = ''eyJsb2ciOiAie1wibWVzc2FnZVwiOlwiaGVsbG9cIn0ifQ==''"
    by code_simp
  have run: "process_record env_std_decoder sample_cfg payload_log sample_ctx [ProcessRecord payload_log]
       = (Inr (), [ProcessRecord payload_log,
            LogStruct ''aws'' (JObj [(''message'', JStr ''hello'')]) (task_resource sample_cfg sample_ctx),
            PrintValue (JObj [(''message'', JStr ''hello'')])])"
    by code_simp
  from record_decode_step [OF k d v e, of sample_cfg "[]" sample_ctx "[]"] obtain payload where
    p: "b64decode_std ''eyJsb2ciOiAie1wibWVzc2FnZVwiOlwiaGVsbG9cIn0ifQ=='' = Some payload"
    and rp: "record_payload env_std_decoder rec_log = Inr payload"
    and step: "handler_loop env_std_decoder sample_cfg [rec_log] sample_ctx []
               = (case process_record env_std_decoder sample_cfg payload sample_ctx ([] @ [ProcessRecord payload]) of
                    (Inl f, tr') \<Rightarrow> (Inl f, tr')
                  | (Inr u, tr') \<Rightarrow> handler_loop env_std_decoder sample_cfg [] sample_ctx tr')"
    and rt: "\<forall>bs. ''eyJsb2ciOiAie1wibWVzc2FnZVwiOlwiaGVsbG9cIn0ifQ=='' = b64encode bs \<longrightarrow> payload = bs"
    by (elim exE conjE)
  from rt enc have pl: "payload = payload_log" by simp
  have h: "handler_loop env_std_decoder sample_cfg [rec_log] sample_ctx []
       = (Inr (), [ProcessRecord payload_log,
            LogStruct ''aws'' (JObj [(''message'', JStr ''hello'')]) (task_resource sample_cfg sample_ctx),
            PrintValue (JObj [(''message'', JStr ''hello'')])])"
    unfolding step pl by (simp add: run)
  from v enc p [unfolded pl] rp [unfolded pl] h show ?thesis
    by (intro conjI)
qed

text \<open>
  C9.  When the \<open>log\<close> field parses to a value that is not a container (\<open>None\<close>, a
  \<open>bool\<close>, an \<open>int\<close> such as 5, a \<open>float\<close>), the membership test of line 44 raises: the
  record is not skipped, the handler ends with that fault and the remaining records are not
  processed.  When it parses to a string without the substring \<open>trace\<close>, the record is
  handled as a log record: the string goes to the structured-log sink.
\<close>

theorem non_container_payload_faults:
  assumes "record_payload E r = Inr payload"
    and "inner_payload E payload = Some v"
  shows "((v = JNull \<or> (\<exists>b. v = JBool b) \<or> (\<exists>n. v = JInt n) \<or> (\<exists>x. v = JFloat x)) \<longrightarrow>
            process_record E cfg payload ctx tr = (Inl TypeError_membership, tr)
            \<and> lambda_handler E cfg \<lparr>Records = r # rs\<rparr> ctx tr
                = (Inl TypeError_membership, tr @ [ProcessRecord payload]))
         \<and> ((\<exists>s. v = JStr s \<and> \<not> str_contains ''trace'' s) \<longrightarrow>
            process_record E cfg payload ctx tr = process_log E cfg v ctx tr
            \<and> snd (process_record E cfg payload ctx tr)
                = tr @ LogStruct ''aws'' v (task_resource cfg ctx)
                       # (if log_struct E tr v (task_resource cfg ctx) then [PrintValue v] else []))"
proof -
  have a: "process_record E cfg payload ctx tr0 = (Inl TypeError_membership, tr0)"
    if "v = JNull \<or> (\<exists>b. v = JBool b) \<or> (\<exists>n. v = JInt n) \<or> (\<exists>x. v = JFloat x)" for tr0
    using that process_record_inner [OF assms(2), of cfg ctx tr0] by auto
  have b: "process_record E cfg payload ctx tr = process_log E cfg v ctx tr"
    if "\<exists>s. v = JStr s \<and> \<not> str_contains ''trace'' s"
    using that process_record_inner [OF assms(2), of cfg ctx tr] by auto
  show ?thesis
    using a b assms(1) by (simp add: lambda_handler_def process_log_eq)
qed

theorem non_container_payload_faults_witness:
  "record_payload sample_env rec_five = Inr payload_five
   \<and> inner_payload sample_env payload_five = Some (JInt 5)
   \<and> process_record sample_env sample_cfg payload_five sample_ctx [] = (Inl TypeError_membership, [])
   \<and> lambda_handler sample_env sample_cfg \<lparr>Records = [rec_five, rec_log]\<rparr> sample_ctx []
       = (Inl TypeError_membership, [ProcessRecord payload_five])
   \<and> record_payload sample_env rec_str = Inr payload_str
   \<and> inner_payload sample_env payload_str = Some (JStr ''hello'')
   \<and> process_record sample_env sample_cfg payload_str sample_ctx []
       = (Inr (), [LogStruct ''aws'' (JStr ''hello'') (task_resource sample_cfg sample_ctx),
                   PrintValue (JStr ''hello'')])"
proof -
  have p5: "record_payload sample_env rec_five = Inr payload_five"
    by code_simp
  have i5: "inner_payload sample_env payload_five = Some (JInt 5)"
    by code_simp
  have ps: "record_payload sample_env rec_str = Inr payload_str"
    by code_simp
  have istr: "inner_payload sample_env payload_str = Some (JStr ''hello'')"
    by code_simp
  have n: "\<not> str_contains ''trace'' ''hello''"
    by code_simp
  have s: "log_struct sample_env [] (JStr ''hello'') (task_resource sample_cfg sample_ctx)"
    by (simp add: sample_env_def sink_ok_def)
  from non_container_payload_faults [OF p5 i5, of sample_cfg sample_ctx "[]" "[rec_log]"]
       non_container_payload_faults [OF ps istr, of sample_cfg sample_ctx "[]" "[]"]
       p5 i5 ps istr n s
  show ?thesis by (simp add: process_log_eq)
qed

text \<open>
  C10, as the code has it.  A batch with a record that lacks the \<open>kinesis\<close> or the \<open>data\<close>
  field never returns normally.  When the records before the first such record are
  processed without a fault, the handler raises the \<open>KeyError\<close> of the missing field at
  that record, before decoding it, with the effects of the earlier records already made;
  no later record is processed.  The record is not skipped silently.  The claim as
  written has the fault before any decode of the batch and always a lookup fault; it fails
  when an earlier record has been processed, or has faulted first.
\<close>

theorem missing_fields_abort:
  assumes "lacks_data r"
  shows "(\<exists>k. (k = ''kinesis'' \<or> k = ''data'')
             \<and> record_payload E r = Inl (KeyError k)
             \<and> (\<forall>pre post tr tr1.
                   handler_loop E cfg pre ctx tr = (Inr (), tr1) \<longrightarrow>
                   lambda_handler E cfg \<lparr>Records = pre @ r # post\<rparr> ctx tr = (Inl (KeyError k), tr1)))
         \<and> (\<forall>pre post tr. \<exists>f tr'.
               lambda_handler E cfg \<lparr>Records = pre @ r # post\<rparr> ctx tr = (Inl f, tr'))"
proof -
  from lacks_data_KeyError [OF assms, of E] obtain k where
    k: "k = ''kinesis'' \<or> k = ''data''" "record_payload E r = Inl (KeyError k)"
    by blast
  have stop: "lambda_handler E cfg \<lparr>Records = pre @ r # post\<rparr> ctx tr = (Inl (KeyError k), tr1)"
    if "handler_loop E cfg pre ctx tr = (Inr (), tr1)" for pre post tr tr1
    using that k(2) by (simp add: lambda_handler_def handler_loop_append)
  have never: "\<exists>f tr'. lambda_handler E cfg \<lparr>Records = pre @ r # post\<rparr> ctx tr = (Inl f, tr')"
    for pre post tr
  proof -
    from handler_loop_faults_at [OF k(2), of cfg pre post ctx tr]
    obtain g tr' where "handler_loop E cfg (pre @ r # post) ctx tr = (Inl g, tr')"
      by blast
    then have "lambda_handler E cfg \<lparr>Records = pre @ r # post\<rparr> ctx tr = (Inl g, tr')"
      by (simp add: lambda_handler_def)
    then show ?thesis by blast
  qed
  have "(k = ''kinesis'' \<or> k = ''data'')
        \<and> record_payload E r = Inl (KeyError k)
        \<and> (\<forall>pre post tr tr1.
              handler_loop E cfg pre ctx tr = (Inr (), tr1) \<longrightarrow>
              lambda_handler E cfg \<lparr>Records = pre @ r # post\<rparr> ctx tr = (Inl (KeyError k), tr1))"
  proof (intro conjI allI impI)
    show "k = ''kinesis'' \<or> k = ''data''" by (rule k(1))
    show "record_payload E r = Inl (KeyError k)" by (rule k(2))
    fix pre post tr tr1
    assume "handler_loop E cfg pre ctx tr = (Inr (), tr1)"
    then show "lambda_handler E cfg \<lparr>Records = pre @ r # post\<rparr> ctx tr = (Inl (KeyError k), tr1)"
      by (rule stop)
  qed
  then have "\<exists>k. (k = ''kinesis'' \<or> k = ''data'')
        \<and> record_payload E r = Inl (KeyError k)
        \<and> (\<forall>pre post tr tr1.
              handler_loop E cfg pre ctx tr = (Inr (), tr1) \<longrightarrow>
              lambda_handler E cfg \<lparr>Records = pre @ r # post\<rparr> ctx tr = (Inl (KeyError k), tr1))"
    by (rule exI)
  moreover have "\<forall>pre post tr. \<exists>f tr'.
               lambda_handler E cfg \<lparr>Records = pre @ r # post\<rparr> ctx tr = (Inl f, tr')"
    by (intro allI) (rule never)
  ultimately show ?thesis by (rule conjI)
qed

theorem missing_fields_abort_witness:
  "lacks_data rec_no_kinesis
   \<and> record_payload sample_env rec_no_kinesis = Inl (KeyError ''kinesis'')
   \<and> handler_loop sample_env sample_cfg [rec_not_json] sample_ctx [] = (Inr (), [ProcessRecord ''not json''])
   \<and> lambda_handler sample_env sample_cfg \<lparr>Records = [rec_not_json, rec_no_kinesis, rec_log]\<rparr> sample_ctx []
       = (Inl (KeyError ''kinesis''), [ProcessRecord ''not json''])"
proof -
  have l: "lacks_data rec_no_kinesis"
    by code_simp
  have p: "record_payload sample_env rec_no_kinesis = Inl (KeyError ''kinesis'')"
    by code_simp
  have h: "handler_loop sample_env sample_cfg [rec_not_json] sample_ctx [] = (Inr (), [ProcessRecord ''not json''])"
    by code_simp
  from missing_fields_abort [OF l, of sample_env sample_cfg sample_ctx] obtain k where
    k: "record_payload sample_env rec_no_kinesis = Inl (KeyError k)"
    and a: "\<forall>pre post tr tr1.
        handler_loop sample_env sample_cfg pre sample_ctx tr = (Inr (), tr1) \<longrightarrow>
        lambda_handler sample_env sample_cfg \<lparr>Records = pre @ rec_no_kinesis # post\<rparr> sample_ctx tr
          = (Inl (KeyError k), tr1)"
    by (elim conjE exE)
  from k p have kk: "k = ''kinesis''" by simp
  have e: "[rec_not_json] @ rec_no_kinesis # [rec_log] = [rec_not_json, rec_no_kinesis, rec_log]"
    by simp
  note r = a [rule_format, OF h, of "[rec_log]", unfolded e kk]
  from l p h r show ?thesis
    by (intro conjI)
qed

theorem missing_fields_counterexample:
  "lacks_data rec_no_kinesis
   \<and> lambda_handler sample_env sample_cfg \<lparr>Records = [rec_log, rec_no_kinesis]\<rparr> sample_ctx []
       = (Inl (KeyError ''kinesis''),
          [ProcessRecord payload_log,
           LogStruct ''aws'' (JObj [(''message'', JStr ''hello'')])
             \<lparr>rtype = ''generic_task'',
              labels = [(''location'', ''aws:us-east-1''), (''namespace'', ''default''),
                        (''job'', ''router''), (''task_id'', ''req-1'')]\<rparr>,
           PrintValue (JObj [(''message'', JStr ''hello'')])])
   \<and> calls (snd (lambda_handler sample_env sample_cfg \<lparr>Records = [rec_log, rec_no_kinesis]\<rparr> sample_ctx []))
       = [payload_log]
   \<and> lambda_handler sample_env sample_cfg \<lparr>Records = [rec_five, rec_no_kinesis]\<rparr> sample_ctx []
       = (Inl TypeError_membership, [ProcessRecord payload_five])"
  by code_simp

end
